theory Spec2Isabelle
  imports Main "HOL-Library.Word"
begin

unbundle bit_operations_syntax

section \<open>The fileset writer of persist/fs/write.go\<close>

text \<open>
  The writer turns a sequence of (key, segments) writes for one shard block into an info
  file, an index file and a data file, and marks the block complete with a checkpoint
  file. The development embeds the writer options, the constructor and the methods
  \<open>Open\<close>, \<open>Write\<close>, \<open>WriteAll\<close>, \<open>Close\<close> as state-passing functions
  over an explicit model of the operating system's files.
\<close>

subsection \<open>Basic types\<close>

type_synonym byte = "8 word"

text \<open>\<open>os.FileMode\<close> is a \<open>uint32\<close>; \<open>time.Duration\<close> and the protobuf fields are \<open>int64\<close>.\<close>

type_synonym FileMode = "32 word"
type_synonym int64 = "64 word"

text \<open>
  A \<open>time.Time\<close> is represented by its number of nanoseconds since the Unix epoch,
  as an unbounded integer. A \<open>*os.File\<close> is \<open>None\<close> for the nil pointer and
  \<open>Some fd\<close> for a file object with descriptor \<open>fd\<close>.
\<close>

type_synonym Time = int
type_synonym File = "nat option"

datatype error =
    ErrInvalid
  | ErrClosed
  | IOError nat
  | MarshalError nat

subsection \<open>Writer options\<close>

definition ModeDir :: FileMode where
  "ModeDir = push_bit 31 1"

definition defaultNewFileMode :: FileMode where
  "defaultNewFileMode = 438"

definition defaultNewDirectoryMode :: FileMode where
  "defaultNewDirectoryMode = ModeDir OR 493"

record writerOptions =
  o_newFileMode :: FileMode
  o_newDirectoryMode :: FileMode

text \<open>
  A \<open>WriterOptions\<close> value is a pointer to a \<open>writerOptions\<close> struct. The structs
  live in a store; a pointer is an index into it and allocation appends a cell. A method
  called on a pointer that does not point into the store panics (\<open>None\<close>).
\<close>

type_synonym opts_store = "writerOptions list"

definition NewWriterOptions :: "opts_store \<Rightarrow> nat \<times> opts_store" where
  "NewWriterOptions h =
     (length h,
      h @ [\<lparr>o_newFileMode = defaultNewFileMode, o_newDirectoryMode = defaultNewDirectoryMode\<rparr>])"

definition NewFileMode :: "FileMode \<Rightarrow> nat \<Rightarrow> opts_store \<Rightarrow> (nat \<times> opts_store) option" where
  "NewFileMode val p h =
     (if p < length h
      then (let opts = h ! p;
                opts = opts\<lparr>o_newFileMode := val\<rparr>
            in Some (length h, h @ [opts]))
      else None)"

definition GetNewFileMode :: "nat \<Rightarrow> opts_store \<Rightarrow> FileMode option" where
  "GetNewFileMode p h = (if p < length h then Some (o_newFileMode (h ! p)) else None)"

definition NewDirectoryMode :: "FileMode \<Rightarrow> nat \<Rightarrow> opts_store \<Rightarrow> (nat \<times> opts_store) option" where
  "NewDirectoryMode val p h =
     (if p < length h
      then (let opts = h ! p;
                opts = opts\<lparr>o_newDirectoryMode := val\<rparr>
            in Some (length h, h @ [opts]))
      else None)"

definition GetNewDirectoryMode :: "nat \<Rightarrow> opts_store \<Rightarrow> FileMode option" where
  "GetNewDirectoryMode p h = (if p < length h then Some (o_newDirectoryMode (h ! p)) else None)"

subsection \<open>The writer\<close>

text \<open>
  The fields of the \<open>writer\<close> struct. The three \<open>proto.Buffer\<close> fields are scratch
  space of the external serialisation library and are represented by the encoders of
  \<open>extern\<close> below.
\<close>

text \<open>
  Modelled from the spec: the field \<open>currIdx\<close> is used by \<open>WriteAll\<close> and
  \<open>Close\<close> but its declaration is not among the available lines of the struct; it
  is the running count of entries written, a 64-bit integer (zero in a new writer, as
  every field that \<open>NewWriter\<close> does not set).
\<close>

record writer =
  blockSize :: int64
  filePathPrefix :: string
  newFileMode :: FileMode
  newDirectoryMode :: FileMode
  infoFd :: File
  indexFd :: File
  dataFd :: File
  checkpointFilePath :: string
  start :: Time
  currIdx :: int64
  idxData :: "byte list"

text \<open>
  Modelled from the spec: the constant \<open>idxLen\<close> is declared outside the available
  source; the entry index is encoded as a fixed-width 64-bit value, eight bytes.
\<close>

definition idxLen :: nat where
  "idxLen = 8"

text \<open>The zero \<open>time.Time\<close> is January 1 of year 1, 00:00:00 UTC.\<close>

definition zeroTime :: Time where
  "zeroTime = - 62135596800000000000"

definition NewWriter ::
  "int64 \<Rightarrow> string \<Rightarrow> nat option \<Rightarrow> opts_store \<Rightarrow> (writer \<times> opts_store) option" where
  "NewWriter bsize prefix options h =
     (let (p, h1) = (case options of None \<Rightarrow> NewWriterOptions h | Some q \<Rightarrow> (q, h))
      in case GetNewFileMode p h1 of
           None \<Rightarrow> None
         | Some fm \<Rightarrow>
            (case GetNewDirectoryMode p h1 of
               None \<Rightarrow> None
             | Some dm \<Rightarrow>
                Some (\<lparr>blockSize = bsize,
                       filePathPrefix = prefix,
                       newFileMode = fm,
                       newDirectoryMode = dm,
                       infoFd = None,
                       indexFd = None,
                       dataFd = None,
                       checkpointFilePath = [],
                       start = zeroTime,
                       currIdx = 0,
                       idxData = replicate idxLen 0\<rparr>, h1)))"

subsection \<open>The operating system\<close>

text \<open>
  The file system maps a path to the content of the file stored there. The descriptor
  table maps an open descriptor to the path it was opened on. Every system call may fail:
  the \<open>script\<close> lists, call by call, whether the next call fails and with which
  error (an exhausted script means that the remaining calls succeed). Every call made on
  a file or a directory is appended to the \<open>trace\<close>, with its outcome.
\<close>

datatype event =
    EvMkdirAll string FileMode "error option"
  | EvOpenFile string FileMode "error + nat"
  | EvWrite File "byte list" "error option"
  | EvClose File "error option"

record world =
  files :: "string \<rightharpoonup> byte list"
  fdtab :: "nat \<rightharpoonup> string"
  next_fd :: nat
  script :: "error option list"
  trace :: "event list"

definition next_fault :: "world \<Rightarrow> error option \<times> world" where
  "next_fault s = (case script s of [] \<Rightarrow> (None, s) | f # fs \<Rightarrow> (f, s\<lparr>script := fs\<rparr>))"

definition log_event :: "event \<Rightarrow> world \<Rightarrow> world" where
  "log_event ev s = s\<lparr>trace := trace s @ [ev]\<rparr>"

definition file_content :: "world \<Rightarrow> string \<Rightarrow> byte list" where
  "file_content s p = (case files s p of None \<Rightarrow> [] | Some c \<Rightarrow> c)"

definition os_MkdirAll :: "string \<Rightarrow> FileMode \<Rightarrow> world \<Rightarrow> error option \<times> world" where
  "os_MkdirAll p m s =
     (case next_fault s of (f, s1) \<Rightarrow> (f, log_event (EvMkdirAll p m f) s1))"

text \<open>
  \<open>os.OpenFile\<close> with the flags \<open>O_WRONLY|O_CREATE|O_TRUNC\<close>, the only flags the
  writer uses: the file exists afterwards and is empty.
\<close>

definition os_OpenFile :: "string \<Rightarrow> FileMode \<Rightarrow> world \<Rightarrow> (error + nat) \<times> world" where
  "os_OpenFile p m s =
     (case next_fault s of
        (Some e, s1) \<Rightarrow> (Inl e, log_event (EvOpenFile p m (Inl e)) s1)
      | (None, s1) \<Rightarrow>
          (let fd = next_fd s1
           in (Inr fd,
               log_event (EvOpenFile p m (Inr fd))
                 (s1\<lparr>files := (files s1)(p \<mapsto> []),
                     fdtab := (fdtab s1)(fd \<mapsto> p),
                     next_fd := fd + 1\<rparr>))))"

text \<open>
  \<open>(*os.File).Write\<close>: \<open>ErrInvalid\<close> on the nil pointer, an error on a closed
  file; otherwise the bytes are appended to the file the descriptor was opened on (the
  writer is the only one to write to its files, sequentially from offset 0).
\<close>

definition File_Write :: "File \<Rightarrow> byte list \<Rightarrow> world \<Rightarrow> error option \<times> world" where
  "File_Write f b s =
     (case f of
        None \<Rightarrow> (Some ErrInvalid, log_event (EvWrite f b (Some ErrInvalid)) s)
      | Some fd \<Rightarrow>
          (case fdtab s fd of
             None \<Rightarrow> (Some ErrClosed, log_event (EvWrite f b (Some ErrClosed)) s)
           | Some p \<Rightarrow>
               (case next_fault s of
                  (Some e, s1) \<Rightarrow> (Some e, log_event (EvWrite f b (Some e)) s1)
                | (None, s1) \<Rightarrow>
                    (None,
                     log_event (EvWrite f b None)
                       (s1\<lparr>files := (files s1)(p \<mapsto> file_content s1 p @ b)\<rparr>)))))"

text \<open>\<open>(*os.File).Close\<close>: the descriptor is released whether or not an error is reported.\<close>

definition File_Close :: "File \<Rightarrow> world \<Rightarrow> error option \<times> world" where
  "File_Close f s =
     (case f of
        None \<Rightarrow> (Some ErrInvalid, log_event (EvClose f (Some ErrInvalid)) s)
      | Some fd \<Rightarrow>
          (case fdtab s fd of
             None \<Rightarrow> (Some ErrClosed, log_event (EvClose f (Some ErrClosed)) s)
           | Some p \<Rightarrow>
               (case next_fault s of
                  (r, s1) \<Rightarrow>
                    (r, log_event (EvClose f r) (s1\<lparr>fdtab := (fdtab s1)(fd := None)\<rparr>)))))"

subsection \<open>Paths\<close>

fun dec :: "nat \<Rightarrow> string" where
  "dec n = (if n < 10 then [''0123456789'' ! n]
            else dec (n div 10) @ [''0123456789'' ! (n mod 10)])"

declare dec.simps [simp del]

definition show_int :: "int \<Rightarrow> string" where
  "show_int i = (if i < 0 then CHR ''-'' # dec (nat (- i)) else dec (nat i))"

text \<open>
  Modelled from the spec: \<open>xtime.ToNanoseconds\<close> is not in the available source; the
  info record holds the start time in nanoseconds since the epoch as a 64-bit integer.
\<close>

definition ToNanoseconds :: "Time \<Rightarrow> int64" where
  "ToNanoseconds t = word_of_int t"

text \<open>
  Modelled from the spec: \<open>ShardDirPath\<close>, \<open>filepathFromTime\<close> and the four file
  suffixes are not in the available source. The shard directory lies under the path prefix
  and is keyed by the shard identifier; the files of a block are
  \<open><shard-dir>/<blockStart>-info.db\<close>, \<open>-index.db\<close>, \<open>-data.db\<close> and
  \<open>-checkpoint.db\<close>.
\<close>

definition ShardDirPath :: "string \<Rightarrow> 32 word \<Rightarrow> string" where
  "ShardDirPath prefix shard = prefix @ ''/'' @ dec (unat shard)"

definition infoFileSuffix :: string where
  "infoFileSuffix = ''info''"

definition indexFileSuffix :: string where
  "indexFileSuffix = ''index''"

definition dataFileSuffix :: string where
  "dataFileSuffix = ''data''"

definition checkpointFileSuffix :: string where
  "checkpointFileSuffix = ''checkpoint''"

definition filepathFromTime :: "string \<Rightarrow> Time \<Rightarrow> string \<Rightarrow> string" where
  "filepathFromTime dir t suffix =
     dir @ ''/'' @ show_int (sint (ToNanoseconds t)) @ ''-'' @ suffix @ ''.db''"

subsection \<open>Records and their encoders\<close>

record IndexInfo =
  Start :: int64
  BlockSize :: int64
  Entries :: int64

record IndexEntry =
  Idx :: int64
  Size :: int64

text \<open>
  The serialisation library (\<open>proto.Buffer.Marshal\<close> followed by \<open>Bytes\<close>) and the
  byte order \<open>endianness\<close> are external to the writer and are parameters of the
  model: an encoder for each of the two records, which may fail, and the fixed-width
  encoding of a 64-bit value.
\<close>

record extern =
  Marshal_IndexInfo :: "IndexInfo \<Rightarrow> error + byte list"
  Marshal_IndexEntry :: "IndexEntry \<Rightarrow> error + byte list"
  PutUint64 :: "int64 \<Rightarrow> byte list"

subsection \<open>Opening a block\<close>

definition openWritable :: "writer \<Rightarrow> string \<Rightarrow> world \<Rightarrow> (error + nat) \<times> world" where
  "openWritable w filePath s = os_OpenFile filePath (newFileMode w) s"

text \<open>The pointers \<open>&w.infoFd\<close>, \<open>&w.indexFd\<close>, \<open>&w.dataFd\<close> handed to \<open>openFiles\<close>.\<close>

datatype fdslot = InfoFd | IndexFd | DataFd

fun assign_fd :: "fdslot \<Rightarrow> File \<Rightarrow> writer \<Rightarrow> writer" where
  "assign_fd InfoFd f w = w\<lparr>infoFd := f\<rparr>"
| "assign_fd IndexFd f w = w\<lparr>indexFd := f\<rparr>"
| "assign_fd DataFd f w = w\<lparr>dataFd := f\<rparr>"

fun release_files :: "nat list \<Rightarrow> world \<Rightarrow> world" where
  "release_files [] s = s"
| "release_files (fd # fds) s = release_files fds (snd (File_Close (Some fd) s))"

text \<open>
  Modelled from the spec: \<open>openFiles\<close> is not in the available source. It opens the
  files through the opener, storing each handle through its pointer; all must open
  successfully; if one fails, the operation fails with that error and the handles
  already opened are released. The files are opened in the order info, index, data.
\<close>

fun openFiles_from ::
  "(string \<times> fdslot) list \<Rightarrow> nat list \<Rightarrow> writer \<Rightarrow> world \<Rightarrow> error option \<times> writer \<times> world" where
  "openFiles_from [] opened w s = (None, w, s)"
| "openFiles_from ((filePath, slot) # rest) opened w s =
     (case openWritable w filePath s of
        (Inl e, s1) \<Rightarrow> (Some e, w, release_files opened s1)
      | (Inr fd, s1) \<Rightarrow> openFiles_from rest (opened @ [fd]) (assign_fd slot (Some fd) w) s1)"

definition openFiles ::
  "(string \<times> fdslot) list \<Rightarrow> writer \<Rightarrow> world \<Rightarrow> error option \<times> writer \<times> world" where
  "openFiles fds w s = openFiles_from fds [] w s"

text \<open>
  \<open>Open\<close>. The call of \<open>os.MkdirAll\<close>, the assignments to \<open>start\<close> and
  \<open>checkpointFilePath\<close> and the call of \<open>openFiles\<close> are the source's.
\<close>

text \<open>
  Modelled from the spec: the reset of \<open>currIdx\<close> is not among the available lines of
  \<open>Open\<close>; \<open>Open\<close> resets the entry counter to 0 where it records
  \<open>blockStart\<close> as the block's start time.
\<close>

definition Open :: "32 word \<Rightarrow> Time \<Rightarrow> writer \<Rightarrow> world \<Rightarrow> error option \<times> writer \<times> world" where
  "Open shard blockStart w s =
     (let shardDir = ShardDirPath (filePathPrefix w) shard
      in case os_MkdirAll shardDir (newDirectoryMode w) s of
           (Some e, s1) \<Rightarrow> (Some e, w, s1)
         | (None, s1) \<Rightarrow>
             (let w1 = w\<lparr>start := blockStart,
                         currIdx := 0,
                         checkpointFilePath :=
                           filepathFromTime shardDir blockStart checkpointFileSuffix\<rparr>
              in openFiles
                   [(filepathFromTime shardDir blockStart infoFileSuffix, InfoFd),
                    (filepathFromTime shardDir blockStart indexFileSuffix, IndexFd),
                    (filepathFromTime shardDir blockStart dataFileSuffix, DataFd)]
                   w1 s1))"

subsection \<open>Writing entries\<close>

text \<open>
  Modelled from the spec: \<open>writeData\<close> is not in the available source; it writes the
  bytes of a segment directly to the data file.
\<close>

definition writeData :: "writer \<Rightarrow> byte list \<Rightarrow> world \<Rightarrow> error option \<times> world" where
  "writeData w d s = File_Write (dataFd w) d s"

text \<open>The loop \<open>for _, d := range data { size += int64(len(d)) }\<close>, from \<open>size = 0\<close>.\<close>

definition segments_size :: "byte list list \<Rightarrow> int64" where
  "segments_size data = foldl (\<lambda>sz d. sz + of_nat (length d)) 0 data"

text \<open>The loop over the segments, which returns at the first failed write.\<close>

fun writeSegments :: "writer \<Rightarrow> byte list list \<Rightarrow> world \<Rightarrow> error option \<times> world" where
  "writeSegments w [] s = (None, s)"
| "writeSegments w (d # ds) s =
     (case writeData w d s of
        (Some e, s1) \<Rightarrow> (Some e, s1)
      | (None, s1) \<Rightarrow> writeSegments w ds s1)"

text \<open>
  Modelled from the spec: the end of \<open>WriteAll\<close>, after the loop over the segments,
  is not in the available source. The index record is appended to the index file: first the
  entry's index as a fixed-width binary value (the content of \<open>idxData\<close>), then the
  length-prefixed encoding of the record; the first error is returned, and
  \<open>currIdx\<close> is incremented by 1 on success.
\<close>

definition appendIndexEntry ::
  "extern \<Rightarrow> IndexEntry \<Rightarrow> writer \<Rightarrow> world \<Rightarrow> error option \<times> writer \<times> world" where
  "appendIndexEntry x entry w s =
     (case Marshal_IndexEntry x entry of
        Inl e \<Rightarrow> (Some e, w, s)
      | Inr entryBytes \<Rightarrow>
          (case File_Write (indexFd w) (idxData w) s of
             (Some e, s1) \<Rightarrow> (Some e, w, s1)
           | (None, s1) \<Rightarrow>
               (case File_Write (indexFd w) entryBytes s1 of
                  (Some e, s2) \<Rightarrow> (Some e, w, s2)
                | (None, s2) \<Rightarrow> (None, w\<lparr>currIdx := currIdx w + 1\<rparr>, s2))))"

text \<open>
  \<open>WriteAll\<close>. The slice \<open>idxData\<close> has \<open>idxLen\<close> bytes from \<open>NewWriter\<close>
  on, and \<open>PutUint64\<close> overwrites all eight of them.
\<close>

definition WriteAll ::
  "extern \<Rightarrow> string \<Rightarrow> byte list list \<Rightarrow> writer \<Rightarrow> world \<Rightarrow> error option \<times> writer \<times> world" where
  "WriteAll x key data w s =
     (let sz = segments_size data
      in if sz = 0 then (None, w, s)
         else
           (let entry = \<lparr>Idx = currIdx w, Size = sz\<rparr>;
                w1 = w\<lparr>idxData := PutUint64 x (currIdx w)\<rparr>
            in case writeSegments w1 data s of
                 (Some e, s1) \<Rightarrow> (Some e, w1, s1)
               | (None, s1) \<Rightarrow> appendIndexEntry x entry w1 s1))"

definition Write ::
  "extern \<Rightarrow> string \<Rightarrow> byte list \<Rightarrow> writer \<Rightarrow> world \<Rightarrow> error option \<times> writer \<times> world" where
  "Write x key data w s =
     (if length data = 0 then (None, w, s)
      else WriteAll x key [data] w s)"

subsection \<open>Closing a block\<close>

text \<open>
  Modelled from the spec: \<open>closeFiles\<close> is not in the available source. It closes the
  handles in the order given and surfaces the first error encountered.
\<close>

fun closeFiles :: "File list \<Rightarrow> world \<Rightarrow> error option \<times> world" where
  "closeFiles [] s = (None, s)"
| "closeFiles (f # fs) s =
     (case File_Close f s of
        (Some e, s1) \<Rightarrow> (Some e, s1)
      | (None, s1) \<Rightarrow> closeFiles fs s1)"

definition writeCheckpointFile :: "writer \<Rightarrow> world \<Rightarrow> error option \<times> world" where
  "writeCheckpointFile w s =
     (case openWritable w (checkpointFilePath w) s of
        (Inl e, s1) \<Rightarrow> (Some e, s1)
      | (Inr fd, s1) \<Rightarrow> (None, snd (File_Close (Some fd) s1)))"

definition closeInfo :: "writer \<Rightarrow> IndexInfo" where
  "closeInfo w =
     \<lparr>Start = ToNanoseconds (start w), BlockSize = blockSize w, Entries = currIdx w\<rparr>"

definition Close :: "extern \<Rightarrow> writer \<Rightarrow> world \<Rightarrow> error option \<times> world" where
  "Close x w s =
     (let info = closeInfo w
      in case Marshal_IndexInfo x info of
           Inl e \<Rightarrow> (Some e, s)
         | Inr infoBytes \<Rightarrow>
             (case File_Write (infoFd w) infoBytes s of
                (Some e, s1) \<Rightarrow> (Some e, s1)
              | (None, s1) \<Rightarrow>
                  (case closeFiles [infoFd w, indexFd w, dataFd w] s1 of
                     (Some e, s2) \<Rightarrow> (Some e, s2)
                   | (None, s2) \<Rightarrow> writeCheckpointFile w s2)))"

subsection \<open>Runs of the writer\<close>

text \<open>The calls made on the operating system between two states of the world.\<close>

definition new_events :: "world \<Rightarrow> world \<Rightarrow> event list" where
  "new_events s s' = drop (length (trace s)) (trace s')"

text \<open>The total length of the segments of one call, as a natural number.\<close>

definition total_length :: "byte list list \<Rightarrow> nat" where
  "total_length data = sum_list (map length data)"

text \<open>A sequence of \<open>WriteAll\<close> calls on one writer, stopped by the first error.\<close>

fun WriteAll_calls ::
  "extern \<Rightarrow> (string \<times> byte list list) list \<Rightarrow> writer \<Rightarrow> world \<Rightarrow> error option \<times> writer \<times> world" where
  "WriteAll_calls x [] w s = (None, w, s)"
| "WriteAll_calls x ((key, data) # calls) w s =
     (case WriteAll x key data w s of
        (Some e, w1, s1) \<Rightarrow> (Some e, w1, s1)
      | (None, w1, s1) \<Rightarrow> WriteAll_calls x calls w1 s1)"

text \<open>
  The index records the specification expects for a sequence of calls, the first of them
  numbered \<open>i\<close>: one record for each call whose segments have a non-zero total length,
  with consecutive indices and the total length as size. The bytes of one record in the
  index file are the fixed-width index followed by the encoded record.
\<close>

fun expected_entries :: "int64 \<Rightarrow> (string \<times> byte list list) list \<Rightarrow> IndexEntry list" where
  "expected_entries i [] = []"
| "expected_entries i ((key, data) # calls) =
     (if total_length data = 0 then expected_entries i calls
      else \<lparr>Idx = i, Size = of_nat (total_length data)\<rparr> # expected_entries (i + 1) calls)"

definition index_frame :: "extern \<Rightarrow> IndexEntry \<Rightarrow> byte list" where
  "index_frame x e =
     PutUint64 x (Idx e) @ (case Marshal_IndexEntry x e of Inl err \<Rightarrow> [] | Inr b \<Rightarrow> b)"

text \<open>
  The state of an open block: the three handles of the writer are open on three
  different paths, and the files there have the given contents.
\<close>

definition block_state ::
  "writer \<Rightarrow> world \<Rightarrow> string \<Rightarrow> string \<Rightarrow> string \<Rightarrow> byte list \<Rightarrow> byte list \<Rightarrow> byte list \<Rightarrow> bool" where
  "block_state w s pi px pd ci cx cd \<longleftrightarrow>
     pi \<noteq> px \<and> pi \<noteq> pd \<and> px \<noteq> pd \<and>
     (\<exists>fi fx fd. infoFd w = Some fi \<and> indexFd w = Some fx \<and> dataFd w = Some fd \<and>
        fdtab s fi = Some pi \<and> fdtab s fx = Some px \<and> fdtab s fd = Some pd) \<and>
     files s pi = Some ci \<and> files s px = Some cx \<and> files s pd = Some cd"

subsection \<open>A concrete block\<close>

text \<open>
  A writer that has been used before (its entry counter is 5), toy encoders, an empty
  file system whose system calls fail as the script says, and the run
  \<open>Open(3, 42)\<close>, some \<open>WriteAll\<close> calls, \<open>Close\<close>.
\<close>

definition example_extern :: extern where
  "example_extern =
     \<lparr>Marshal_IndexInfo = (\<lambda>i. Inr [ucast (Start i), ucast (BlockSize i), ucast (Entries i)]),
      Marshal_IndexEntry = (\<lambda>e. Inr [ucast (Idx e), ucast (Size e)]),
      PutUint64 =
        (\<lambda>v. [ucast v, ucast (drop_bit 8 v), ucast (drop_bit 16 v), ucast (drop_bit 24 v),
              ucast (drop_bit 32 v), ucast (drop_bit 40 v), ucast (drop_bit 48 v),
              ucast (drop_bit 56 v)])\<rparr>"

definition example_writer :: writer where
  "example_writer =
     \<lparr>blockSize = 7, filePathPrefix = ''/db'',
      newFileMode = 438, newDirectoryMode = 2147484141,
      infoFd = None, indexFd = None, dataFd = None,
      checkpointFilePath = [], start = zeroTime, currIdx = 5,
      idxData = replicate 8 0\<rparr>"

definition example_world :: "error option list \<Rightarrow> world" where
  "example_world sc = \<lparr>files = Map.empty, fdtab = Map.empty, next_fd = 3, script = sc, trace = []\<rparr>"

definition example_calls :: "(string \<times> byte list list) list" where
  "example_calls = [(''seriesA'', [[1, 2, 3]]), (''seriesB'', [[]]), (''seriesC'', [[4, 5], [6]])]"

definition example_opened :: "error option list \<Rightarrow> error option \<times> writer \<times> world" where
  "example_opened sc = Open 3 42 example_writer (example_world sc)"

definition example_written :: "(string \<times> byte list list) list \<Rightarrow> error option \<times> writer \<times> world" where
  "example_written calls =
     WriteAll_calls example_extern calls
       (fst (snd (example_opened []))) (snd (snd (example_opened [])))"

definition example_closed :: "(string \<times> byte list list) list \<Rightarrow> error option \<times> world" where
  "example_closed calls =
     Close example_extern (fst (snd (example_written calls))) (snd (snd (example_written calls)))"

definition example_failed_close :: "error option \<times> world" where
  "example_failed_close =
     Close example_extern
       (fst (snd (example_opened [None, None, None, None, None, None, Some (IOError 7)])))
       (snd (snd (example_opened [None, None, None, None, None, None, Some (IOError 7)])))"

subsection \<open>Properties of the options\<close>

text \<open>
  C8. For every options value \<open>opts\<close> in the store and every mode \<open>m\<close>, the value
  returned by \<open>NewFileMode m\<close> reads back \<open>m\<close> through \<open>GetNewFileMode\<close>, it is
  a different object, and every object that existed before the call, \<open>opts\<close>
  included, still returns its previous file mode and directory mode. The same holds for
  \<open>NewDirectoryMode\<close> and \<open>GetNewDirectoryMode\<close>.
\<close>

theorem options_roundtrip_no_mutation:
  assumes "p < length h"
  shows "\<exists>p1 h1 p2 h2.
           NewFileMode m p h = Some (p1, h1)
         \<and> GetNewFileMode p1 h1 = Some m
         \<and> p1 \<noteq> p
         \<and> GetNewFileMode p h1 = GetNewFileMode p h
         \<and> GetNewDirectoryMode p h1 = GetNewDirectoryMode p h
         \<and> GetNewDirectoryMode p1 h1 = GetNewDirectoryMode p h
         \<and> NewDirectoryMode m p h = Some (p2, h2)
         \<and> GetNewDirectoryMode p2 h2 = Some m
         \<and> p2 \<noteq> p
         \<and> GetNewDirectoryMode p h2 = GetNewDirectoryMode p h
         \<and> GetNewFileMode p h2 = GetNewFileMode p h
         \<and> GetNewFileMode p2 h2 = GetNewFileMode p h"
  using assms
  by (simp add: NewFileMode_def NewDirectoryMode_def GetNewFileMode_def
      GetNewDirectoryMode_def Let_def nth_append)

theorem options_roundtrip_no_mutation_witness:
  "\<exists>p1 h1 p2 h2.
       NewFileMode 384 0 (snd (NewWriterOptions [])) = Some (p1, h1)
     \<and> GetNewFileMode p1 h1 = Some 384
     \<and> p1 \<noteq> 0
     \<and> GetNewFileMode 0 h1 = Some defaultNewFileMode
     \<and> NewDirectoryMode 384 0 (snd (NewWriterOptions [])) = Some (p2, h2)
     \<and> GetNewDirectoryMode p2 h2 = Some 384
     \<and> GetNewDirectoryMode 0 h2 = Some defaultNewDirectoryMode"
proof -
  have len: "0 < length (snd (NewWriterOptions []))"
    by (simp add: NewWriterOptions_def)
  have g: "GetNewFileMode 0 (snd (NewWriterOptions [])) = Some defaultNewFileMode"
    "GetNewDirectoryMode 0 (snd (NewWriterOptions [])) = Some defaultNewDirectoryMode"
    by (simp_all add: NewWriterOptions_def GetNewFileMode_def GetNewDirectoryMode_def)
  from options_roundtrip_no_mutation [OF len, of 384] g show ?thesis
    by metis
qed

text \<open>
  C9. For every block size and path prefix, \<open>NewWriter\<close> called with nil options
  builds a writer whose file mode is \<open>0666\<close> and whose directory mode is \<open>0755\<close>
  with the directory bit set, and that writer is the one built from the options
  returned by \<open>NewWriterOptions\<close>.
\<close>

theorem NewWriter_nil_options_defaults:
  "\<exists>w h1. NewWriter bsize prefix None h = Some (w, h1)
        \<and> newFileMode w = 438
        \<and> newDirectoryMode w = 2147484141
        \<and> bit (newDirectoryMode w) 31
        \<and> take_bit 9 (newDirectoryMode w) = 493
        \<and> blockSize w = bsize
        \<and> filePathPrefix w = prefix
        \<and> NewWriter bsize prefix (Some (fst (NewWriterOptions h))) (snd (NewWriterOptions h))
            = Some (w, h1)"
  by (simp add: NewWriter_def NewWriterOptions_def GetNewFileMode_def GetNewDirectoryMode_def
      defaultNewFileMode_def defaultNewDirectoryMode_def ModeDir_def bit_or_iff)

subsection \<open>Running the model on concrete inputs\<close>

lemma triple_collapse: "fst p = a \<Longrightarrow> p = (a, fst (snd p), snd (snd p))"
  by (cases p) auto

lemma pair_collapse: "fst p = a \<Longrightarrow> p = (a, snd p)"
  by (cases p) auto

text \<open>The definitions to unfold when the model is run on a concrete input.\<close>

lemmas model_defs =
  Open_def ShardDirPath_def filepathFromTime_def show_int_def ToNanoseconds_def
  infoFileSuffix_def indexFileSuffix_def dataFileSuffix_def checkpointFileSuffix_def
  os_MkdirAll_def os_OpenFile_def File_Write_def File_Close_def next_fault_def log_event_def
  file_content_def openFiles_def openWritable_def writeData_def segments_size_def
  appendIndexEntry_def WriteAll_def Close_def closeInfo_def writeCheckpointFile_def
  index_frame_def total_length_def
  example_extern_def example_writer_def example_world_def example_calls_def
  example_opened_def example_written_def example_closed_def example_failed_close_def
  Let_def dec.simps

subsection \<open>Write and empty writes\<close>

text \<open>
  C6. For every key and every byte sequence \<open>data\<close>, \<open>Write key data\<close> returns the
  same error, leaves the same writer (so the same \<open>currIdx\<close>) and the same world (so
  the same writes) as \<open>WriteAll key [data]\<close>.
\<close>

theorem Write_is_WriteAll_singleton:
  "Write x key data w s = WriteAll x key [data] w s"
  by (simp add: Write_def WriteAll_def segments_size_def)

lemma foldl_size:
  "foldl (\<lambda>sz d. sz + of_nat (length d)) (a::int64) data = a + of_nat (total_length data)"
  by (induction data arbitrary: a) (simp_all add: add.assoc total_length_def)

lemma total_length_concat: "length (concat data) = total_length data"
  by (simp add: total_length_def length_concat)

lemma total_length_zero: "total_length data = 0 \<Longrightarrow> concat data = []"
  by (simp add: total_length_def)

lemma segments_size_eq: "segments_size data = of_nat (total_length data)"
  by (simp add: segments_size_def foldl_size)

lemma WriteAll_zero:
  "segments_size data = 0 \<Longrightarrow> WriteAll x key data w s = (None, w, s)"
  by (simp add: WriteAll_def)

text \<open>
  C4. For every key and every sequence of segments whose lengths sum to 0 (the empty
  sequence included), \<open>WriteAll\<close> returns no error and leaves the writer and the world
  as they were: no byte is written to any file, no call is made on the operating system,
  \<open>currIdx\<close> is unchanged, and any following write behaves as if the empty write had
  not occurred.
\<close>

theorem WriteAll_empty_is_noop:
  assumes "total_length data = 0"
  shows "WriteAll x key data w s = (None, w, s)
       \<and> WriteAll x key2 data2 (fst (snd (WriteAll x key data w s)))
            (snd (snd (WriteAll x key data w s)))
          = WriteAll x key2 data2 w s"
proof -
  from assms have "segments_size data = 0" by (simp add: segments_size_eq)
  then show ?thesis by (simp add: WriteAll_zero)
qed

theorem WriteAll_empty_is_noop_witness:
  "total_length [[], []] = 0
   \<and> WriteAll example_extern ''seriesB'' [[], []] example_writer (example_world [])
       = (None, example_writer, example_world [])"
proof -
  have h: "total_length [[], []] = 0" by (simp add: total_length_def)
  from WriteAll_empty_is_noop [OF h] h show ?thesis by simp
qed

subsection \<open>System calls and the trace\<close>

lemma next_fault_fields:
  "next_fault s = (f, s1) \<Longrightarrow>
     files s1 = files s \<and> fdtab s1 = fdtab s \<and> next_fd s1 = next_fd s \<and> trace s1 = trace s"
  by (auto simp: next_fault_def split: list.splits)

lemma File_Write_trace:
  "File_Write f b s = (r, s') \<Longrightarrow> trace s' = trace s @ [EvWrite f b r]"
  by (auto simp: File_Write_def log_event_def split: option.splits prod.splits
      dest: next_fault_fields)

lemma File_Close_trace:
  "File_Close f s = (r, s') \<Longrightarrow> trace s' = trace s @ [EvClose f r] \<and> files s' = files s"
  by (auto simp: File_Close_def log_event_def split: option.splits prod.splits
      dest: next_fault_fields)

lemma os_OpenFile_trace:
  "os_OpenFile p m s = (r, s') \<Longrightarrow> trace s' = trace s @ [EvOpenFile p m r]"
  by (auto simp: os_OpenFile_def log_event_def Let_def split: option.splits prod.splits
      dest: next_fault_fields)

lemma os_OpenFile_files:
  "os_OpenFile p m s = (Inr fd, s') \<Longrightarrow> files s' = (files s)(p \<mapsto> [])"
  by (auto simp: os_OpenFile_def log_event_def Let_def split: option.splits prod.splits
      dest: next_fault_fields)

lemma new_events_append: "trace s' = trace s @ evs \<Longrightarrow> new_events s s' = evs"
  by (simp add: new_events_def)

lemma closeFiles_trace:
  "closeFiles fs s = (r, s') \<Longrightarrow>
     files s' = files s \<and>
     (\<exists>evs. trace s' = trace s @ evs
          \<and> (\<forall>p m res. EvOpenFile p m res \<notin> set evs)
          \<and> (r = None \<longrightarrow> evs = map (\<lambda>f. EvClose f None) fs))"
proof (induction fs arbitrary: s)
  case Nil
  then show ?case by simp
next
  case (Cons f fs)
  obtain r1 s1 where c: "File_Close f s = (r1, s1)" by (cases "File_Close f s")
  note t = File_Close_trace [OF c]
  show ?case
  proof (cases r1)
    case None
    with Cons.prems c have "closeFiles fs s1 = (r, s')" by simp
    from Cons.IH [OF this] t None show ?thesis by auto
  next
    case (Some e)
    with Cons.prems c have "r = Some e" "s' = s1" by simp_all
    with t show ?thesis by simp
  qed
qed

lemma Close_cases:
  assumes "Close x w s = (r, s')"
  obtains
    (c_marshal) e where "Marshal_IndexInfo x (closeInfo w) = Inl e" and "r = Some e" and "s' = s"
  | (c_write) b e where "Marshal_IndexInfo x (closeInfo w) = Inr b"
      and "File_Write (infoFd w) b s = (Some e, s')" and "r = Some e"
  | (c_close) b s1 e where "Marshal_IndexInfo x (closeInfo w) = Inr b"
      and "File_Write (infoFd w) b s = (None, s1)"
      and "closeFiles [infoFd w, indexFd w, dataFd w] s1 = (Some e, s')" and "r = Some e"
  | (c_cpopen) b s1 s2 e where "Marshal_IndexInfo x (closeInfo w) = Inr b"
      and "File_Write (infoFd w) b s = (None, s1)"
      and "closeFiles [infoFd w, indexFd w, dataFd w] s1 = (None, s2)"
      and "os_OpenFile (checkpointFilePath w) (newFileMode w) s2 = (Inl e, s')" and "r = Some e"
  | (c_ok) b s1 s2 fd s3 where "Marshal_IndexInfo x (closeInfo w) = Inr b"
      and "File_Write (infoFd w) b s = (None, s1)"
      and "closeFiles [infoFd w, indexFd w, dataFd w] s1 = (None, s2)"
      and "os_OpenFile (checkpointFilePath w) (newFileMode w) s2 = (Inr fd, s3)"
      and "s' = snd (File_Close (Some fd) s3)" and "r = None"
  using assms unfolding Close_def writeCheckpointFile_def openWritable_def Let_def
  by (auto split: sum.splits prod.splits option.splits)

subsection \<open>Close and the checkpoint file\<close>

text \<open>
  C1. For every \<open>Close\<close> call: if closing one of the info, index or data handles
  fails, \<open>Close\<close> returns that error, does nothing after the failed close, and makes
  no call that creates a file; a file is created (the checkpoint file, at the writer's
  checkpoint path) only after the write of the info record and the three closes have
  succeeded; and a successful \<open>Close\<close> ends with the creation of the checkpoint file,
  opened and immediately closed, which exists with zero content afterwards.
\<close>

theorem Close_checkpoint_last:
  assumes "Close x w s = (r, s')"
  shows "(\<forall>b s1 e s2.
            Marshal_IndexInfo x (closeInfo w) = Inr b
          \<and> File_Write (infoFd w) b s = (None, s1)
          \<and> closeFiles [infoFd w, indexFd w, dataFd w] s1 = (Some e, s2)
          \<longrightarrow> r = Some e \<and> s' = s2 \<and> files s' = files s1
              \<and> (\<forall>p m res. EvOpenFile p m res \<notin> set (new_events s s')))
       \<and> (\<forall>p m res. EvOpenFile p m res \<in> set (new_events s s') \<longrightarrow>
            p = checkpointFilePath w
          \<and> (\<exists>b. take 5 (new_events s s') =
                 [EvWrite (infoFd w) b None, EvClose (infoFd w) None,
                  EvClose (indexFd w) None, EvClose (dataFd w) None,
                  EvOpenFile p m res]))
       \<and> (r = None \<longrightarrow>
            files s' (checkpointFilePath w) = Some []
          \<and> (\<exists>b fd cr. new_events s s' =
                 [EvWrite (infoFd w) b None, EvClose (infoFd w) None,
                  EvClose (indexFd w) None, EvClose (dataFd w) None,
                  EvOpenFile (checkpointFilePath w) (newFileMode w) (Inr fd),
                  EvClose (Some fd) cr]))"
  using assms
proof (cases rule: Close_cases)
  case (c_marshal e)
  then show ?thesis by (simp add: new_events_def)
next
  case (c_write b e)
  from File_Write_trace [OF c_write(2)] have "new_events s s' = [EvWrite (infoFd w) b (Some e)]"
    by (rule new_events_append)
  with c_write show ?thesis by simp
next
  case (c_close b s1 e)
  from closeFiles_trace [OF c_close(3)] obtain evs where
    f: "files s' = files s1" and t: "trace s' = trace s1 @ evs"
    and n: "\<forall>p m res. EvOpenFile p m res \<notin> set evs" by blast
  from File_Write_trace [OF c_close(2)] t
  have "new_events s s' = EvWrite (infoFd w) b None # evs"
    by (simp add: new_events_def)
  with c_close f n show ?thesis by simp
next
  case (c_cpopen b s1 s2 e)
  from closeFiles_trace [OF c_cpopen(3)]
  have t2: "trace s2 = trace s1 @ [EvClose (infoFd w) None, EvClose (indexFd w) None,
      EvClose (dataFd w) None]" by auto
  from File_Write_trace [OF c_cpopen(2)] t2 os_OpenFile_trace [OF c_cpopen(4)]
  have "new_events s s' = [EvWrite (infoFd w) b None, EvClose (infoFd w) None,
      EvClose (indexFd w) None, EvClose (dataFd w) None,
      EvOpenFile (checkpointFilePath w) (newFileMode w) (Inl e)]"
    by (simp add: new_events_def)
  with c_cpopen show ?thesis by auto
next
  case (c_ok b s1 s2 fd s3)
  from closeFiles_trace [OF c_ok(3)]
  have t2: "trace s2 = trace s1 @ [EvClose (infoFd w) None, EvClose (indexFd w) None,
      EvClose (dataFd w) None]" by auto
  obtain cr where c: "File_Close (Some fd) s3 = (cr, s')"
    using c_ok(5) by (cases "File_Close (Some fd) s3") simp
  from File_Write_trace [OF c_ok(2)] t2 os_OpenFile_trace [OF c_ok(4)] File_Close_trace [OF c]
  have ev: "new_events s s' = [EvWrite (infoFd w) b None, EvClose (infoFd w) None,
      EvClose (indexFd w) None, EvClose (dataFd w) None,
      EvOpenFile (checkpointFilePath w) (newFileMode w) (Inr fd), EvClose (Some fd) cr]"
    by (simp add: new_events_def)
  from os_OpenFile_files [OF c_ok(4)] File_Close_trace [OF c]
  have "files s' (checkpointFilePath w) = Some []" by simp
  with c_ok ev show ?thesis by auto
qed

theorem Close_checkpoint_last_witness:
  "fst example_failed_close = Some (IOError 7)
   \<and> (\<forall>p m res. EvOpenFile p m res \<notin> set
         (new_events
            (snd (snd (example_opened [None, None, None, None, None, None, Some (IOError 7)])))
            (snd example_failed_close)))
   \<and> files (snd example_failed_close) ''/db/3/42-checkpoint.db'' = None
   \<and> fst (example_closed example_calls) = None
   \<and> files (snd (example_closed example_calls)) ''/db/3/42-checkpoint.db'' = Some []"
proof -
  let ?o = "example_opened [None, None, None, None, None, None, Some (IOError 7)]"
  let ?W = "fst (snd ?o)"
  let ?S = "snd (snd ?o)"
  let ?S1 = "snd (File_Write (infoFd ?W) [42, 7, 0] ?S)"
  let ?S2 = "snd (closeFiles [infoFd ?W, indexFd ?W, dataFd ?W] ?S1)"
  have m: "Marshal_IndexInfo example_extern (closeInfo ?W) = Inr [42, 7, 0]" by (simp add: model_defs)
  have w1: "fst (File_Write (infoFd ?W) [42, 7, 0] ?S) = None" by (simp add: model_defs)
  have c1: "fst (closeFiles [infoFd ?W, indexFd ?W, dataFd ?W] ?S1) = Some (IOError 7)"
    by (simp add: model_defs)
  have absent: "files (snd example_failed_close) ''/db/3/42-checkpoint.db'' = None"
    by (simp add: model_defs)
  have cl: "fst (example_closed example_calls) = None" by (simp add: model_defs)
  have p: "checkpointFilePath (fst (snd (example_written example_calls)))
      = ''/db/3/42-checkpoint.db''" by (simp add: model_defs)
  have whole: "Close example_extern ?W ?S = (fst example_failed_close, snd example_failed_close)"
    by (simp add: example_failed_close_def)
  from m pair_collapse [OF w1] pair_collapse [OF c1]
  have hyp: "Marshal_IndexInfo example_extern (closeInfo ?W) = Inr [42, 7, 0]
      \<and> File_Write (infoFd ?W) [42, 7, 0] ?S = (None, ?S1)
      \<and> closeFiles [infoFd ?W, indexFd ?W, dataFd ?W] ?S1 = (Some (IOError 7), ?S2)"
    by simp
  note fail = Close_checkpoint_last [OF whole, THEN conjunct1, rule_format, OF hyp]
  note ok = Close_checkpoint_last [OF pair_collapse [OF cl, unfolded example_closed_def],
      THEN conjunct2, THEN conjunct2, rule_format, OF refl]
  note f1 = fail [THEN conjunct1]
  note f2 = fail [THEN conjunct2, THEN conjunct2, THEN conjunct2]
  note k = ok [THEN conjunct1, unfolded p, folded example_closed_def]
  show ?thesis
    by (intro conjI) (rule f1 f2 absent cl k)+
qed

subsection \<open>Open\<close>

lemma assign_fd_fields:
  "start (assign_fd slot f w) = start w"
  "checkpointFilePath (assign_fd slot f w) = checkpointFilePath w"
  "currIdx (assign_fd slot f w) = currIdx w"
  "blockSize (assign_fd slot f w) = blockSize w"
  "newFileMode (assign_fd slot f w) = newFileMode w"
  by (cases slot; simp)+

lemma openFiles_from_fields:
  "openFiles_from fds opened w s = (r, w', s') \<Longrightarrow>
     start w' = start w \<and> checkpointFilePath w' = checkpointFilePath w
   \<and> currIdx w' = currIdx w \<and> blockSize w' = blockSize w \<and> newFileMode w' = newFileMode w"
proof (induction fds opened w s rule: openFiles_from.induct)
  case (1 opened w s)
  then show ?case by simp
next
  case (2 filePath slot rest opened w s)
  show ?case
  proof (cases "openWritable w filePath s")
    case (Pair a s1)
    show ?thesis
    proof (cases a)
      case (Inl e)
      with Pair "2.prems" show ?thesis by simp
    next
      case (Inr fd)
      with Pair "2.prems" "2.IH" [OF Pair [symmetric] Inr] show ?thesis
        by (simp add: assign_fd_fields)
    qed
  qed
qed

lemma Open_cases:
  assumes "Open shard blockStart w s = (r, w', s')"
  obtains
    (c_mkdir) e where
      "os_MkdirAll (ShardDirPath (filePathPrefix w) shard) (newDirectoryMode w) s = (Some e, s')"
      and "r = Some e" and "w' = w"
  | (c_files) s1 where
      "os_MkdirAll (ShardDirPath (filePathPrefix w) shard) (newDirectoryMode w) s = (None, s1)"
      and "openFiles_from
             [(filepathFromTime (ShardDirPath (filePathPrefix w) shard) blockStart infoFileSuffix,
               InfoFd),
              (filepathFromTime (ShardDirPath (filePathPrefix w) shard) blockStart indexFileSuffix,
               IndexFd),
              (filepathFromTime (ShardDirPath (filePathPrefix w) shard) blockStart dataFileSuffix,
               DataFd)]
             []
             (w\<lparr>start := blockStart, currIdx := 0,
                checkpointFilePath :=
                  filepathFromTime (ShardDirPath (filePathPrefix w) shard) blockStart
                    checkpointFileSuffix\<rparr>)
             s1 = (r, w', s')"
  using assms unfolding Open_def Let_def openFiles_def
  by (simp split: prod.splits option.splits del: openFiles_from.simps)

text \<open>
  C10. \<open>Open\<close> is not atomic on the writer: when creating the directory fails,
  \<open>Open\<close> returns that error and the writer is unchanged; once the directory has been
  created, the writer's start time and checkpoint path are those of the new block,
  whether opening the three files then succeeds or fails.
\<close>

theorem Open_overwrites_before_opening:
  assumes "Open shard blockStart w s = (r, w', s')"
  shows "(\<forall>e s1. os_MkdirAll (ShardDirPath (filePathPrefix w) shard) (newDirectoryMode w) s
                   = (Some e, s1)
            \<longrightarrow> r = Some e \<and> w' = w \<and> s' = s1)
       \<and> (\<forall>s1. os_MkdirAll (ShardDirPath (filePathPrefix w) shard) (newDirectoryMode w) s
                   = (None, s1)
            \<longrightarrow> start w' = blockStart
              \<and> checkpointFilePath w' =
                  filepathFromTime (ShardDirPath (filePathPrefix w) shard) blockStart
                    checkpointFileSuffix)"
  using assms
proof (cases rule: Open_cases)
  case (c_mkdir e)
  then show ?thesis by simp
next
  case (c_files s1)
  from openFiles_from_fields [OF c_files(2)] c_files(1) show ?thesis by simp
qed

theorem Open_overwrites_before_opening_witness:
  "fst (example_opened [None, Some (IOError 5)]) = Some (IOError 5)
   \<and> start example_writer \<noteq> 42
   \<and> start (fst (snd (example_opened [None, Some (IOError 5)]))) = 42
   \<and> checkpointFilePath (fst (snd (example_opened [None, Some (IOError 5)])))
       = ''/db/3/42-checkpoint.db''
   \<and> fst (example_opened [Some (IOError 4)]) = Some (IOError 4)
   \<and> fst (snd (example_opened [Some (IOError 4)])) = example_writer"
proof -
  let ?d = "ShardDirPath (filePathPrefix example_writer) 3"
  let ?m = "newDirectoryMode example_writer"
  have r1: "fst (example_opened [None, Some (IOError 5)]) = Some (IOError 5)" by (simp add: model_defs)
  have r2: "fst (example_opened [Some (IOError 4)]) = Some (IOError 4)" by (simp add: model_defs)
  have m1: "fst (os_MkdirAll ?d ?m (example_world [None, Some (IOError 5)])) = None"
    by (simp add: model_defs)
  have m2: "fst (os_MkdirAll ?d ?m (example_world [Some (IOError 4)])) = Some (IOError 4)"
    by (simp add: model_defs)
  have p: "filepathFromTime ?d 42 checkpointFileSuffix = ''/db/3/42-checkpoint.db''"
    by (simp add: model_defs)
  have z: "start example_writer \<noteq> 42" by (simp add: example_writer_def zeroTime_def)
  note h1 = triple_collapse [OF r1, unfolded example_opened_def]
  note h2 = triple_collapse [OF r2, unfolded example_opened_def]
  from Open_overwrites_before_opening [OF h1, THEN conjunct2, rule_format, OF pair_collapse [OF m1]]
    Open_overwrites_before_opening [OF h2, THEN conjunct1, rule_format, OF pair_collapse [OF m2]]
    r1 r2 p z
  show ?thesis by (simp add: example_opened_def)
qed

text \<open>
  C5. For every shard and block start, a successful \<open>Open\<close> leaves the entry counter
  at 0 and the block start recorded, so that the info record built by \<open>Close\<close> right
  after it has this start, the writer's block size and 0 entries.
\<close>

theorem Open_resets_counter:
  assumes "Open shard blockStart w s = (None, w', s')"
  shows "currIdx w' = 0 \<and> start w' = blockStart
       \<and> closeInfo w' =
           \<lparr>Start = ToNanoseconds blockStart, BlockSize = blockSize w, Entries = 0\<rparr>"
  using assms
proof (cases rule: Open_cases)
  case (c_mkdir e)
  then show ?thesis by simp
next
  case (c_files s1)
  from openFiles_from_fields [OF c_files(2)] show ?thesis by (simp add: closeInfo_def)
qed

theorem Open_resets_counter_witness:
  "fst (example_opened []) = None
   \<and> currIdx example_writer = 5
   \<and> currIdx (fst (snd (example_opened []))) = 0
   \<and> start (fst (snd (example_opened []))) = 42
   \<and> closeInfo (fst (snd (example_opened []))) = \<lparr>Start = 42, BlockSize = 7, Entries = 0\<rparr>"
proof -
  have o: "fst (example_opened []) = None" by (simp add: model_defs)
  note h = triple_collapse [OF o, unfolded example_opened_def]
  from Open_resets_counter [OF h] o show ?thesis
    by (simp add: example_opened_def example_writer_def ToNanoseconds_def)
qed

subsection \<open>Sizes as 64-bit integers\<close>

lemma nat_lt_word64: "(n::nat) < 2 ^ 63 \<Longrightarrow> n < 2 ^ LENGTH(64)"
  by simp

lemma unat_of_nat64: "n < 2 ^ LENGTH(64) \<Longrightarrow> unat (of_nat n :: int64) = n"
  by (simp add: unat_of_nat)

lemma word64_of_nat_zero: "n < 2 ^ 63 \<Longrightarrow> (of_nat n :: int64) = 0 \<longleftrightarrow> n = 0"
proof
  assume b: "n < 2 ^ 63" and z: "(of_nat n :: int64) = 0"
  from unat_of_nat64 [OF nat_lt_word64 [OF b]] z show "n = 0" by simp
next
  assume "n = 0" then show "(of_nat n :: int64) = 0" by simp
qed

lemma word64_sint_of_nat: "n < 2 ^ 63 \<Longrightarrow> sint (of_nat n :: int64) = int n"
proof -
  assume "n < 2 ^ 63"
  then have "int n < 2 ^ 63" by simp
  then have "signed_take_bit 63 (int n) = int n"
    by (intro signed_take_bit_int_eq_self) simp_all
  then show ?thesis by (simp add: signed_of_nat)
qed

lemma segments_size_zero_iff:
  "total_length data < 2 ^ 63 \<Longrightarrow>
     segments_size data = 0 \<longleftrightarrow> total_length data = 0"
  unfolding segments_size_eq by (rule word64_of_nat_zero)

subsection \<open>The files of an open block\<close>

lemma os_OpenFile_ok:
  "os_OpenFile p m s = (Inr fd, s') \<Longrightarrow>
     fd = next_fd s \<and> next_fd s' = Suc (next_fd s)
   \<and> files s' = (files s)(p \<mapsto> []) \<and> fdtab s' = (fdtab s)(fd \<mapsto> p)"
  by (auto simp: os_OpenFile_def log_event_def Let_def split: option.splits prod.splits
      dest: next_fault_fields)

lemma File_Write_ok:
  "File_Write (Some fd) b s = (None, s') \<Longrightarrow> fdtab s fd = Some p \<Longrightarrow>
     fdtab s' = fdtab s \<and> files s' = (files s)(p \<mapsto> file_content s p @ b)"
  by (auto simp: File_Write_def log_event_def file_content_def
      split: option.splits prod.splits dest: next_fault_fields)

lemma block_state_idxData [simp]:
  "block_state (w\<lparr>idxData := v\<rparr>) s pi px pd ci cx cd = block_state w s pi px pd ci cx cd"
  by (simp add: block_state_def)

lemma block_state_currIdx [simp]:
  "block_state (w\<lparr>currIdx := v\<rparr>) s pi px pd ci cx cd = block_state w s pi px pd ci cx cd"
  by (simp add: block_state_def)

lemma block_state_write_data:
  assumes "block_state w s pi px pd ci cx cd" and "File_Write (dataFd w) b s = (None, s')"
  shows "block_state w s' pi px pd ci cx (cd @ b)"
proof -
  from assms(1) obtain fd where fd: "dataFd w = Some fd" "fdtab s fd = Some pd"
    by (auto simp: block_state_def)
  from File_Write_ok [OF assms(2) [unfolded fd(1)] fd(2)] assms(1) show ?thesis
    by (auto simp: block_state_def file_content_def)
qed

lemma block_state_write_index:
  assumes "block_state w s pi px pd ci cx cd" and "File_Write (indexFd w) b s = (None, s')"
  shows "block_state w s' pi px pd ci (cx @ b) cd"
proof -
  from assms(1) obtain fd where fd: "indexFd w = Some fd" "fdtab s fd = Some px"
    by (auto simp: block_state_def)
  from File_Write_ok [OF assms(2) [unfolded fd(1)] fd(2)] assms(1) show ?thesis
    by (auto simp: block_state_def file_content_def)
qed

lemma block_state_write_info:
  assumes "block_state w s pi px pd ci cx cd" and "File_Write (infoFd w) b s = (None, s')"
  shows "block_state w s' pi px pd (ci @ b) cx cd"
proof -
  from assms(1) obtain fd where fd: "infoFd w = Some fd" "fdtab s fd = Some pi"
    by (auto simp: block_state_def)
  from File_Write_ok [OF assms(2) [unfolded fd(1)] fd(2)] assms(1) show ?thesis
    by (auto simp: block_state_def file_content_def)
qed

lemma writeSegments_state:
  "block_state w s pi px pd ci cx cd \<Longrightarrow> writeSegments w data s = (None, s') \<Longrightarrow>
     block_state w s' pi px pd ci cx (cd @ concat data)"
proof (induction data arbitrary: s cd)
  case Nil
  then show ?case by simp
next
  case (Cons d ds)
  from Cons.prems(2) obtain s1 where
    w1: "File_Write (dataFd w) d s = (None, s1)" and w2: "writeSegments w ds s1 = (None, s')"
    by (auto simp: writeData_def split: prod.splits option.splits)
  from Cons.IH [OF block_state_write_data [OF Cons.prems(1) w1] w2] show ?case by simp
qed

lemma writeSegments_idxData [simp]:
  "writeSegments (w\<lparr>idxData := v\<rparr>) data s = writeSegments w data s"
  by (induction data arbitrary: s) (simp_all add: writeData_def split: prod.splits option.splits)

lemma WriteAll_state:
  assumes "block_state w s pi px pd ci cx cd"
      and "WriteAll x key data w s = (None, w', s')"
      and "segments_size data \<noteq> 0"
  shows "block_state w' s' pi px pd ci
           (cx @ index_frame x \<lparr>Idx = currIdx w, Size = segments_size data\<rparr>)
           (cd @ concat data)
       \<and> w' = w\<lparr>idxData := PutUint64 x (currIdx w), currIdx := currIdx w + 1\<rparr>"
proof -
  let ?e = "\<lparr>Idx = currIdx w, Size = segments_size data\<rparr>"
  let ?w1 = "w\<lparr>idxData := PutUint64 x (currIdx w)\<rparr>"
  from assms(2,3) obtain s1 where
    seg: "writeSegments w data s = (None, s1)"
    and app: "appendIndexEntry x ?e ?w1 s1 = (None, w', s')"
    by (auto simp: WriteAll_def Let_def split: prod.splits option.splits)
  from app obtain b s2 where
    m: "Marshal_IndexEntry x ?e = Inr b"
    and i1: "File_Write (indexFd w) (PutUint64 x (currIdx w)) s1 = (None, s2)"
    and i2: "File_Write (indexFd w) b s2 = (None, s')"
    and w': "w' = ?w1\<lparr>currIdx := currIdx w + 1\<rparr>"
    by (auto simp: appendIndexEntry_def split: sum.splits prod.splits option.splits)
  note st1 = writeSegments_state [OF assms(1) seg]
  note st2 = block_state_write_index [OF st1 i1]
  note st3 = block_state_write_index [OF st2 i2]
  from st3 m w' show ?thesis by (simp add: index_frame_def)
qed

lemma WriteAll_calls_state:
  assumes "\<forall>(key, data)\<in>set calls. total_length data < 2 ^ 63"
  shows "block_state w s pi px pd ci cx cd \<Longrightarrow>
         WriteAll_calls x calls w s = (None, w', s') \<Longrightarrow>
           block_state w' s' pi px pd ci
             (cx @ concat (map (index_frame x) (expected_entries (currIdx w) calls)))
             (cd @ concat (map (\<lambda>(key, data). concat data) calls))
         \<and> currIdx w' = currIdx w + of_nat (length (expected_entries (currIdx w) calls))
         \<and> start w' = start w \<and> blockSize w' = blockSize w
         \<and> checkpointFilePath w' = checkpointFilePath w \<and> newFileMode w' = newFileMode w"
  using assms
proof (induction calls arbitrary: w s cx cd)
  case Nil
  then show ?case by simp
next
  case (Cons c calls)
  obtain key data where c: "c = (key, data)" by (cases c)
  from Cons.prems(3) c have bound: "total_length data < 2 ^ 63"
    and rest: "\<forall>(key, data)\<in>set calls. total_length data < 2 ^ 63"
    by simp_all
  from Cons.prems(2) c obtain w1 s1 where
    step: "WriteAll x key data w s = (None, w1, s1)"
    and run: "WriteAll_calls x calls w1 s1 = (None, w', s')"
    by (auto split: prod.splits option.splits)
  show ?case
  proof (cases "total_length data = 0")
    case True
    then have z: "segments_size data = 0" by (simp add: segments_size_eq)
    from True have e: "concat data = []" by (rule total_length_zero)
    from step WriteAll_zero [OF z] have "w1 = w" "s1 = s" by simp_all
    with Cons.IH [OF Cons.prems(1) _ rest] run True c show ?thesis by (simp add: e)
  next
    case False
    with segments_size_zero_iff [OF bound] have nz: "segments_size data \<noteq> 0" by simp
    note ws = WriteAll_state [OF Cons.prems(1) step nz]
    note st = ws [THEN conjunct1] and w1 = ws [THEN conjunct2]
    from Cons.IH [OF st run rest] w1 False c show ?thesis
      by (simp add: segments_size_eq add.assoc)
  qed
qed

lemma expected_entries_Idx:
  "i < length (expected_entries k calls) \<Longrightarrow> Idx (expected_entries k calls ! i) = k + of_nat i"
proof (induction calls arbitrary: k i)
  case Nil
  then show ?case by simp
next
  case (Cons c calls)
  obtain key data where c: "c = (key, data)" by (cases c)
  show ?case
  proof (cases "total_length data = 0")
    case True
    with Cons c show ?thesis by simp
  next
    case False
    with Cons c show ?thesis by (cases i) (simp_all add: add.assoc)
  qed
qed

lemma expected_entries_length:
  "length (expected_entries k calls)
     = length (filter (\<lambda>(key, data). total_length data \<noteq> 0) calls)"
  by (induction calls arbitrary: k) auto

lemma expected_entries_sizes:
  "\<forall>(key, data)\<in>set calls. total_length data < 2 ^ 63 \<Longrightarrow>
     sum_list (map (\<lambda>e. sint (Size e)) (expected_entries k calls))
       = int (length (concat (map (\<lambda>(key, data). concat data) calls)))"
proof (induction calls arbitrary: k)
  case Nil
  then show ?case by simp
next
  case (Cons c calls)
  obtain key data where c: "c = (key, data)" by (cases c)
  from Cons.prems c have bound: "total_length data < 2 ^ 63"
    and rest: "\<forall>(key, data)\<in>set calls. total_length data < 2 ^ 63"
    by simp_all
  show ?case
  proof (cases "total_length data = 0")
    case True
    with Cons.IH [OF rest] c show ?thesis
      by (simp add: total_length_zero [OF True])
  next
    case False
    with Cons.IH [OF rest] c word64_sint_of_nat [OF bound] show ?thesis
      by (simp add: total_length_concat)
  qed
qed

lemma filepathFromTime_inj [simp]:
  "filepathFromTime d t a = filepathFromTime d t b \<longleftrightarrow> a = b"
  by (simp add: filepathFromTime_def)

lemma suffixes_distinct [simp]:
  "infoFileSuffix \<noteq> indexFileSuffix" "infoFileSuffix \<noteq> dataFileSuffix"
  "indexFileSuffix \<noteq> dataFileSuffix" "checkpointFileSuffix \<noteq> infoFileSuffix"
  "checkpointFileSuffix \<noteq> indexFileSuffix" "checkpointFileSuffix \<noteq> dataFileSuffix"
  by (simp_all add: infoFileSuffix_def indexFileSuffix_def dataFileSuffix_def
      checkpointFileSuffix_def)

lemma os_MkdirAll_fields:
  "os_MkdirAll p m s = (r, s') \<Longrightarrow>
     files s' = files s \<and> fdtab s' = fdtab s \<and> next_fd s' = next_fd s"
  by (auto simp: os_MkdirAll_def log_event_def split: prod.splits dest: next_fault_fields)

lemma openFiles_from_Cons_ok:
  "openFiles_from ((p, slot) # rest) opened w s = (None, w', s') \<Longrightarrow>
     \<exists>fd s1. os_OpenFile p (newFileMode w) s = (Inr fd, s1)
          \<and> openFiles_from rest (opened @ [fd]) (assign_fd slot (Some fd) w) s1 = (None, w', s')"
  by (auto simp: openWritable_def split: prod.splits sum.splits)

lemma Open_state:
  assumes "Open shard blockStart w s = (None, w1, s1)"
  shows "block_state w1 s1
           (filepathFromTime (ShardDirPath (filePathPrefix w) shard) blockStart infoFileSuffix)
           (filepathFromTime (ShardDirPath (filePathPrefix w) shard) blockStart indexFileSuffix)
           (filepathFromTime (ShardDirPath (filePathPrefix w) shard) blockStart dataFileSuffix)
           [] [] []
       \<and> currIdx w1 = 0 \<and> start w1 = blockStart \<and> blockSize w1 = blockSize w
       \<and> newFileMode w1 = newFileMode w
       \<and> checkpointFilePath w1 =
           filepathFromTime (ShardDirPath (filePathPrefix w) shard) blockStart
             checkpointFileSuffix"
  using assms
proof (cases rule: Open_cases)
  case (c_mkdir e)
  then show ?thesis by simp
next
  case (c_files s0)
  let ?d = "ShardDirPath (filePathPrefix w) shard"
  let ?w0 = "w\<lparr>start := blockStart, currIdx := 0,
               checkpointFilePath := filepathFromTime ?d blockStart checkpointFileSuffix\<rparr>"
  from openFiles_from_Cons_ok [OF c_files(2)] obtain f1 t1 where
    o1: "os_OpenFile (filepathFromTime ?d blockStart infoFileSuffix) (newFileMode ?w0) s0
           = (Inr f1, t1)"
    and r1: "openFiles_from
               [(filepathFromTime ?d blockStart indexFileSuffix, IndexFd),
                (filepathFromTime ?d blockStart dataFileSuffix, DataFd)]
               ([] @ [f1]) (assign_fd InfoFd (Some f1) ?w0) t1 = (None, w1, s1)"
    by blast
  from openFiles_from_Cons_ok [OF r1] obtain f2 t2 where
    o2: "os_OpenFile (filepathFromTime ?d blockStart indexFileSuffix)
           (newFileMode (assign_fd InfoFd (Some f1) ?w0)) t1 = (Inr f2, t2)"
    and r2: "openFiles_from
               [(filepathFromTime ?d blockStart dataFileSuffix, DataFd)]
               (([] @ [f1]) @ [f2])
               (assign_fd IndexFd (Some f2) (assign_fd InfoFd (Some f1) ?w0)) t2
             = (None, w1, s1)"
    by blast
  from openFiles_from_Cons_ok [OF r2] obtain f3 t3 where
    o3: "os_OpenFile (filepathFromTime ?d blockStart dataFileSuffix)
           (newFileMode (assign_fd IndexFd (Some f2) (assign_fd InfoFd (Some f1) ?w0))) t2
           = (Inr f3, t3)"
    and r3: "openFiles_from [] ((([] @ [f1]) @ [f2]) @ [f3])
               (assign_fd DataFd (Some f3)
                 (assign_fd IndexFd (Some f2) (assign_fd InfoFd (Some f1) ?w0))) t3
             = (None, w1, s1)"
    by blast
  from r3 have w1: "w1 = ?w0\<lparr>infoFd := Some f1, indexFd := Some f2, dataFd := Some f3\<rparr>"
    and s1: "s1 = t3" by simp_all
  note k1 = os_OpenFile_ok [OF o1] and k2 = os_OpenFile_ok [OF o2] and k3 = os_OpenFile_ok [OF o3]
  from k1 k2 k3 have fds: "f2 = Suc f1" "f3 = Suc (Suc f1)" by simp_all
  from k1 k2 k3 fds w1 s1 show ?thesis
    by (simp add: block_state_def)
qed

lemma Close_state:
  assumes "block_state w s pi px pd ci cx cd"
      and "Close x w s = (None, s')"
      and "checkpointFilePath w \<noteq> pi" "checkpointFilePath w \<noteq> px" "checkpointFilePath w \<noteq> pd"
  shows "\<exists>b. Marshal_IndexInfo x (closeInfo w) = Inr b
           \<and> files s' pi = Some (ci @ b) \<and> files s' px = Some cx \<and> files s' pd = Some cd
           \<and> files s' (checkpointFilePath w) = Some []"
  using assms(2)
proof (cases rule: Close_cases)
  case (c_ok b t1 t2 fd t3)
  note st = block_state_write_info [OF assms(1) c_ok(2)]
  from closeFiles_trace [OF c_ok(3)] have f2: "files t2 = files t1" by simp
  note f3 = os_OpenFile_files [OF c_ok(4)]
  obtain cr where c: "File_Close (Some fd) t3 = (cr, s')"
    using c_ok(5) by (cases "File_Close (Some fd) t3") simp
  from File_Close_trace [OF c] have f4: "files s' = files t3" by simp
  from st f2 f3 f4 assms(3-5) c_ok(1) show ?thesis
    by (simp add: block_state_def)
qed simp_all

subsection \<open>A block from Open to Close\<close>

text \<open>
  The three theorems below take the total length of the segments of each call to be
  below \<open>2 ^ 63\<close>: \<open>WriteAll\<close> sums it in an \<open>int64\<close>, and no file holds
  more bytes than that, file offsets being \<open>int64\<close> themselves.
\<close>

text \<open>
  C3. After a successful \<open>Open\<close> and any sequence of successful \<open>WriteAll\<close> calls,
  the index file holds, in write order, one record for each call of non-zero total
  length, the \<open>i\<close>-th record (from 0) has index \<open>i\<close>, and \<open>currIdx\<close> is the
  number of these records: each successful non-empty write adds 1 to it.
\<close>

theorem index_records_contiguous:
  assumes "Open shard blockStart w s = (None, w1, s1)"
      and "\<forall>(key, data)\<in>set calls. total_length data < 2 ^ 63"
      and "WriteAll_calls x calls w1 s1 = (None, w2, s2)"
  shows "files s2
           (filepathFromTime (ShardDirPath (filePathPrefix w) shard) blockStart indexFileSuffix)
           = Some (concat (map (index_frame x) (expected_entries 0 calls)))
       \<and> length (expected_entries 0 calls)
           = length (filter (\<lambda>(key, data). total_length data \<noteq> 0) calls)
       \<and> (\<forall>i<length (expected_entries 0 calls). Idx (expected_entries 0 calls ! i) = of_nat i)
       \<and> (length (expected_entries 0 calls) \<le> 2 ^ 63 \<longrightarrow>
            (\<forall>i<length (expected_entries 0 calls).
               sint (Idx (expected_entries 0 calls ! i)) = int i))
       \<and> currIdx w2 = of_nat (length (expected_entries 0 calls))"
proof -
  note op = Open_state [OF assms(1)]
  from WriteAll_calls_state [OF assms(2) op [THEN conjunct1] assms(3)] op
  have "files s2
           (filepathFromTime (ShardDirPath (filePathPrefix w) shard) blockStart indexFileSuffix)
           = Some (concat (map (index_frame x) (expected_entries 0 calls)))"
    and "currIdx w2 = of_nat (length (expected_entries 0 calls))"
    by (simp_all add: block_state_def)
  moreover have "\<forall>i<length (expected_entries 0 calls).
      Idx (expected_entries 0 calls ! i) = of_nat i"
    by (simp add: expected_entries_Idx)
  moreover have "length (expected_entries 0 calls) \<le> 2 ^ 63 \<longrightarrow>
      (\<forall>i<length (expected_entries 0 calls). sint (Idx (expected_entries 0 calls ! i)) = int i)"
    by (auto simp: expected_entries_Idx intro!: word64_sint_of_nat)
  ultimately show ?thesis by (simp add: expected_entries_length)
qed

theorem index_records_contiguous_witness:
  "fst (example_opened []) = None
   \<and> fst (example_written example_calls) = None
   \<and> files (snd (snd (example_written example_calls))) ''/db/3/42-index.db''
       = Some [0, 0, 0, 0, 0, 0, 0, 0, 0, 3, 1, 0, 0, 0, 0, 0, 0, 0, 1, 3]
   \<and> currIdx (fst (snd (example_written example_calls))) = 2"
proof -
  have o: "fst (example_opened []) = None" by (simp add: model_defs)
  have wr: "fst (example_written example_calls) = None" by (simp add: model_defs)
  have b: "\<forall>(key, data)\<in>set example_calls. total_length data < 2 ^ 63"
    by (simp add: example_calls_def total_length_def)
  have p: "filepathFromTime (ShardDirPath (filePathPrefix example_writer) 3) 42 indexFileSuffix
      = ''/db/3/42-index.db''" by (simp add: model_defs)
  have c: "concat (map (index_frame example_extern) (expected_entries 0 example_calls))
      = [0, 0, 0, 0, 0, 0, 0, 0, 0, 3, 1, 0, 0, 0, 0, 0, 0, 0, 1, 3]" by (simp add: model_defs)
  have n: "length (expected_entries 0 example_calls) = 2" by (simp add: model_defs)
  note h1 = triple_collapse [OF o, unfolded example_opened_def]
  note h2 = triple_collapse [OF wr, unfolded example_written_def example_opened_def]
  from index_records_contiguous [OF h1 b h2] o wr p c n show ?thesis
    by (simp add: example_written_def example_opened_def)
qed

text \<open>
  C7. After a successful \<open>Open\<close>, successful \<open>WriteAll\<close> calls and a successful
  \<open>Close\<close>, the data file is the concatenation, call after call, of the segments of
  each call in their order (so the bytes of one call are contiguous and not interleaved
  with those of another), the index file holds the expected records, and the sizes
  recorded there sum to the number of bytes of the data file.
\<close>

theorem data_file_matches_index_sizes:
  assumes "Open shard blockStart w s = (None, w1, s1)"
      and "\<forall>(key, data)\<in>set calls. total_length data < 2 ^ 63"
      and "WriteAll_calls x calls w1 s1 = (None, w2, s2)"
      and "Close x w2 s2 = (None, s3)"
  shows "files s3
           (filepathFromTime (ShardDirPath (filePathPrefix w) shard) blockStart dataFileSuffix)
           = Some (concat (map (\<lambda>(key, data). concat data) calls))
       \<and> files s3
           (filepathFromTime (ShardDirPath (filePathPrefix w) shard) blockStart indexFileSuffix)
           = Some (concat (map (index_frame x) (expected_entries 0 calls)))
       \<and> sum_list (map (\<lambda>e. sint (Size e)) (expected_entries 0 calls))
           = int (length (concat (map (\<lambda>(key, data). concat data) calls)))"
proof -
  note op = Open_state [OF assms(1)]
  note wr = WriteAll_calls_state [OF assms(2) op [THEN conjunct1] assms(3)]
  from wr op have cp: "checkpointFilePath w2 =
      filepathFromTime (ShardDirPath (filePathPrefix w) shard) blockStart checkpointFileSuffix"
    by simp
  from Close_state [OF wr [THEN conjunct1] assms(4)] cp op expected_entries_sizes [OF assms(2)]
  show ?thesis by auto
qed

theorem data_file_matches_index_sizes_witness:
  "fst (example_opened []) = None
   \<and> fst (example_written example_calls) = None
   \<and> fst (example_closed example_calls) = None
   \<and> files (snd (example_closed example_calls)) ''/db/3/42-data.db''
       = Some [1, 2, 3, 4, 5, 6]
   \<and> map Size (expected_entries 0 example_calls) = [3, 3]"
proof -
  have o: "fst (example_opened []) = None" by (simp add: model_defs)
  have wr: "fst (example_written example_calls) = None" by (simp add: model_defs)
  have cl: "fst (example_closed example_calls) = None" by (simp add: model_defs)
  have b: "\<forall>(key, data)\<in>set example_calls. total_length data < 2 ^ 63"
    by (simp add: example_calls_def total_length_def)
  have p: "filepathFromTime (ShardDirPath (filePathPrefix example_writer) 3) 42 dataFileSuffix
      = ''/db/3/42-data.db''" by (simp add: model_defs)
  have c: "concat (map (\<lambda>(key, data). concat data) example_calls) = [1, 2, 3, 4, 5, 6]"
    by (simp add: example_calls_def)
  have z: "map Size (expected_entries 0 example_calls) = [3, 3]" by (simp add: model_defs)
  note h1 = triple_collapse [OF o, unfolded example_opened_def]
  note h2 = triple_collapse [OF wr, unfolded example_written_def example_opened_def]
  note h3 = pair_collapse [OF cl, unfolded example_closed_def example_written_def
      example_opened_def]
  from data_file_matches_index_sizes [OF h1 b h2 h3] o wr cl p c z show ?thesis
    by (simp add: example_closed_def example_written_def example_opened_def)
qed

text \<open>
  C2. After a successful \<open>Open\<close>, \<open>n\<close> successful \<open>WriteAll\<close> calls whose
  segments have non-zero total length and a successful \<open>Close\<close>, the checkpoint file
  exists and the info file holds the encoding of the info record whose start is the block
  start given to \<open>Open\<close> in nanoseconds, whose block size is the writer's and whose
  number of entries is \<open>n\<close>, the final value of \<open>currIdx\<close>.
\<close>

theorem close_commits_info_and_checkpoint:
  assumes "Open shard blockStart w s = (None, w1, s1)"
      and "\<forall>(key, data)\<in>set calls. 0 < total_length data \<and> total_length data < 2 ^ 63"
      and "WriteAll_calls x calls w1 s1 = (None, w2, s2)"
      and "Close x w2 s2 = (None, s3)"
  shows "files s3
           (filepathFromTime (ShardDirPath (filePathPrefix w) shard) blockStart
              checkpointFileSuffix) = Some []
       \<and> (\<exists>b. Marshal_IndexInfo x
                 \<lparr>Start = ToNanoseconds blockStart, BlockSize = blockSize w,
                  Entries = of_nat (length calls)\<rparr> = Inr b
             \<and> files s3
                 (filepathFromTime (ShardDirPath (filePathPrefix w) shard) blockStart
                    infoFileSuffix) = Some b)
       \<and> currIdx w2 = of_nat (length calls)
       \<and> (length calls < 2 ^ 63 \<longrightarrow> sint (currIdx w2) = int (length calls))"
proof -
  from assms(2) have bound: "\<forall>(key, data)\<in>set calls. total_length data < 2 ^ 63"
    by auto
  from assms(2) have "filter (\<lambda>(key, data). total_length data \<noteq> 0) calls = calls"
    by (auto simp: filter_id_conv)
  then have n: "length (expected_entries 0 calls) = length calls"
    by (simp add: expected_entries_length)
  note op = Open_state [OF assms(1)]
  note wr = WriteAll_calls_state [OF bound op [THEN conjunct1] assms(3)]
  from wr op n have cur: "currIdx w2 = of_nat (length calls)" by simp
  from wr op have cp: "checkpointFilePath w2 =
      filepathFromTime (ShardDirPath (filePathPrefix w) shard) blockStart checkpointFileSuffix"
    by simp
  from wr op cur have info: "closeInfo w2 =
      \<lparr>Start = ToNanoseconds blockStart, BlockSize = blockSize w,
       Entries = of_nat (length calls)\<rparr>"
    by (simp add: closeInfo_def)
  from Close_state [OF wr [THEN conjunct1] assms(4)] cp op info cur show ?thesis
    by (auto simp: word64_sint_of_nat)
qed

theorem close_commits_info_and_checkpoint_witness:
  "fst (example_opened []) = None
   \<and> fst (example_written [(''seriesA'', [[1, 2, 3]]), (''seriesC'', [[4, 5], [6]])]) = None
   \<and> fst (example_closed [(''seriesA'', [[1, 2, 3]]), (''seriesC'', [[4, 5], [6]])]) = None
   \<and> files (snd (example_closed [(''seriesA'', [[1, 2, 3]]), (''seriesC'', [[4, 5], [6]])]))
        ''/db/3/42-checkpoint.db'' = Some []
   \<and> files (snd (example_closed [(''seriesA'', [[1, 2, 3]]), (''seriesC'', [[4, 5], [6]])]))
        ''/db/3/42-info.db'' = Some [42, 7, 2]"
proof -
  let ?calls = "[(''seriesA'', [[1, 2, 3]]), (''seriesC'', [[4, 5], [6::byte]])]"
  have o: "fst (example_opened []) = None" by (simp add: model_defs)
  have wr: "fst (example_written ?calls) = None" by (simp add: model_defs)
  have cl: "fst (example_closed ?calls) = None" by (simp add: model_defs)
  have b: "\<forall>(key, data)\<in>set ?calls. 0 < total_length data \<and> total_length data < 2 ^ 63"
    by (simp add: total_length_def)
  have p: "filepathFromTime (ShardDirPath (filePathPrefix example_writer) 3) 42
      checkpointFileSuffix = ''/db/3/42-checkpoint.db''"
    "filepathFromTime (ShardDirPath (filePathPrefix example_writer) 3) 42
      infoFileSuffix = ''/db/3/42-info.db''" by (simp_all add: model_defs)
  have m: "Marshal_IndexInfo example_extern
      \<lparr>Start = ToNanoseconds 42, BlockSize = blockSize example_writer,
       Entries = of_nat (length ?calls)\<rparr> = Inr [42, 7, 2]" by (simp add: model_defs)
  note h1 = triple_collapse [OF o, unfolded example_opened_def]
  note h2 = triple_collapse [OF wr, unfolded example_written_def example_opened_def]
  note h3 = pair_collapse [OF cl, unfolded example_closed_def example_written_def
      example_opened_def]
  from close_commits_info_and_checkpoint [OF h1 b h2 h3] o wr cl p m show ?thesis
    by (auto simp: example_closed_def example_written_def example_opened_def)
qed

end
